theory Spec2Isabelle
  imports Main "HOL-Library.Sublist"
begin

section \<open>Go strings and the standard-library calls of package model\<close>

text \<open>
  A Go string is a sequence of bytes, so it is modelled as \<open>string\<close> (a \<open>char list\<close>,
  one \<open>char\<close> per byte). The functions of package \<open>strings\<close> that \<open>base.go\<close> calls are
  modelled byte for byte on ASCII input. Where the Go implementation leaves its ASCII
  path for the Unicode tables (a byte \<open>\<ge> utf8.RuneSelf\<close>), the model calls a field of the
  record \<open>unicode_fallback\<close>; every theorem below holds for all values of that record.
\<close>

definition RuneSelf :: nat where
  "RuneSelf = 128"

definition isASCII :: "char \<Rightarrow> bool" where
  "isASCII c = ((of_char c :: nat) < RuneSelf)"

record unicode_fallback =
  MapToLower :: "string \<Rightarrow> string"
  TrimFuncIsSpace :: "string \<Rightarrow> string"
  TrimRightFuncIsSpace :: "string \<Rightarrow> string"

text \<open>
  \<open>MapToLower s\<close> stands for \<open>strings.Map(unicode.ToLower, s)\<close>, \<open>TrimFuncIsSpace s\<close> for
  \<open>strings.TrimFunc(s, unicode.IsSpace)\<close> and \<open>TrimRightFuncIsSpace s\<close> for
  \<open>strings.TrimRightFunc(s, unicode.IsSpace)\<close>. The record \<open>ascii_only\<close> is a stand-in for
  evaluating the model at ASCII inputs, where none of the three is called.
\<close>

definition ascii_only :: unicode_fallback where
  "ascii_only = \<lparr>MapToLower = (\<lambda>s. s), TrimFuncIsSpace = (\<lambda>s. s),
                  TrimRightFuncIsSpace = (\<lambda>s. s)\<rparr>"

definition lowerByte :: "char \<Rightarrow> char" where
  \<comment> \<open>\<open>if 'A' <= c && c <= 'Z' { c += 'a' - 'A' }\<close>\<close>
  "lowerByte c =
     (if (65::nat) \<le> of_char c \<and> of_char c \<le> (90::nat)
      then char_of (of_char c + (32::nat)) else c)"

definition ToLower :: "unicode_fallback \<Rightarrow> string \<Rightarrow> string" where
  \<comment> \<open>\<open>strings.ToLower\<close>: ASCII-only strings are lowered bytewise, others by the tables.\<close>
  "ToLower U s = (if list_all isASCII s then map lowerByte s else MapToLower U s)"

definition asciiSpace :: "char \<Rightarrow> bool" where
  \<comment> \<open>the table \<open>asciiSpace\<close> of package strings: tab, newline, VT, FF, CR, space\<close>
  "asciiSpace c = (c = CHR 0x09 \<or> c = CHR 0x0A \<or> c = CHR 0x0B \<or> c = CHR 0x0C
                   \<or> c = CHR 0x0D \<or> c = CHR '' '')"

fun TrimSpace_stop_rev :: "unicode_fallback \<Rightarrow> string \<Rightarrow> string" where
  \<comment> \<open>the second loop of \<open>strings.TrimSpace\<close>, on the reversed remainder \<open>s[start:]\<close>\<close>
  "TrimSpace_stop_rev U [] = []"
| "TrimSpace_stop_rev U (c # r) =
     (if \<not> isASCII c then TrimRightFuncIsSpace U (rev (c # r))
      else if asciiSpace c then TrimSpace_stop_rev U r
      else rev (c # r))"

fun TrimSpace :: "unicode_fallback \<Rightarrow> string \<Rightarrow> string" where
  \<comment> \<open>\<open>strings.TrimSpace\<close>: the first loop finds \<open>start\<close>, then the second finds \<open>stop\<close>\<close>
  "TrimSpace U [] = []"
| "TrimSpace U (c # s) =
     (if \<not> isASCII c then TrimFuncIsSpace U (c # s)
      else if asciiSpace c then TrimSpace U s
      else TrimSpace_stop_rev U (rev (c # s)))"

definition HasPrefix :: "string \<Rightarrow> string \<Rightarrow> bool" where
  \<comment> \<open>\<open>len(s) >= len(prefix) && s[:len(prefix)] == prefix\<close>\<close>
  "HasPrefix s pre = (length pre \<le> length s \<and> take (length pre) s = pre)"

fun Index_from :: "nat \<Rightarrow> string \<Rightarrow> string \<Rightarrow> int" where
  \<comment> \<open>\<open>strings.Index\<close>: the first position where \<open>substr\<close> starts, or \<open>-1\<close>\<close>
  "Index_from i [] substr = (if substr = [] then int i else - 1)"
| "Index_from i (c # s) substr =
     (if HasPrefix (c # s) substr then int i else Index_from (Suc i) s substr)"

definition Index :: "string \<Rightarrow> string \<Rightarrow> int" where
  "Index s substr = Index_from 0 s substr"

definition Contains :: "string \<Rightarrow> string \<Rightarrow> bool" where
  \<comment> \<open>\<open>strings.Contains(s, substr) = Index(s, substr) >= 0\<close>\<close>
  "Contains s substr = (0 \<le> Index s substr)"

definition trimLeftByte :: "string \<Rightarrow> char \<Rightarrow> string" where
  \<comment> \<open>\<open>strings.TrimLeft(s, cutset)\<close> for a cutset of one ASCII byte:
      \<open>for len(s) > 0 && s[0] == c { s = s[1:] }\<close>\<close>
  "trimLeftByte s c = dropWhile (\<lambda>x. x = c) s"

definition isSeparator :: "char \<Rightarrow> bool" where
  \<comment> \<open>\<open>strings.isSeparator\<close> on an ASCII byte: letters, digits and underscore are not\<close>
  "isSeparator r =
     (\<not> (((48::nat) \<le> of_char r \<and> of_char r \<le> (57::nat))
        \<or> ((97::nat) \<le> of_char r \<and> of_char r \<le> (122::nat))
        \<or> ((65::nat) \<le> of_char r \<and> of_char r \<le> (90::nat))
        \<or> r = CHR ''_''))"

definition toTitleByte :: "char \<Rightarrow> char" where
  \<comment> \<open>\<open>unicode.ToTitle\<close> on an ASCII byte\<close>
  "toTitleByte r =
     (if (97::nat) \<le> of_char r \<and> of_char r \<le> (122::nat)
      then char_of (of_char r - (32::nat)) else r)"

fun Title_from :: "char \<Rightarrow> string \<Rightarrow> string" where
  "Title_from prev [] = []"
| "Title_from prev (r # s) =
     (if isSeparator prev then toTitleByte r else r) # Title_from r s"

definition Title :: "string \<Rightarrow> string" where
  \<comment> \<open>\<open>strings.Title\<close>; \<open>base.go\<close> applies it to the ASCII literals of a switch only\<close>
  "Title s = Title_from (CHR '' '') s"

section \<open>Keyword sets\<close>

record KeyWord =
  words :: "string list"

definition GormKeywords :: KeyWord where
  "GormKeywords = \<lparr>words =
     [''UnderlyingDB'', ''UseDB'', ''UseModel'', ''UseTable'', ''Quote'', ''Debug'',
      ''TableName'', ''WithContext'',
      ''As'', ''Not'', ''Or'', ''Build'', ''Columns'', ''Hints'',
      ''Distinct'', ''Omit'',
      ''Select'', ''Where'', ''Order'', ''Group'', ''Having'', ''Limit'', ''Offset'',
      ''Join'', ''LeftJoin'', ''RightJoin'',
      ''Save'', ''Create'', ''CreateInBatches'',
      ''Update'', ''Updates'', ''UpdateColumn'', ''UpdateColumns'',
      ''Find'', ''FindInBatches'', ''First'', ''Take'', ''Last'', ''Pluck'', ''Count'',
      ''Scan'', ''ScanRows'', ''Row'', ''Rows'',
      ''Delete'', ''Unscoped'',
      ''Scopes'']\<rparr>"

definition DOKeywords :: KeyWord where
  "DOKeywords = \<lparr>words = [''Alias'', ''TableName'', ''WithContext'']\<rparr>"

definition GenKeywords :: KeyWord where
  "GenKeywords = \<lparr>words = [''generateSQL'', ''whereClause'', ''setClause'']\<rparr>"

fun FullMatch_range :: "string list \<Rightarrow> string \<Rightarrow> bool" where
  \<comment> \<open>\<open>for _, item := range g.words { if word == item { return true } }; return false\<close>\<close>
  "FullMatch_range [] word = False"
| "FullMatch_range (item # rest) word =
     (if word = item then True else FullMatch_range rest word)"

definition FullMatch :: "KeyWord \<Rightarrow> string \<Rightarrow> bool" where
  "FullMatch g word = FullMatch_range (words g) word"

fun Contain_range :: "string list \<Rightarrow> string \<Rightarrow> bool" where
  "Contain_range [] text = False"
| "Contain_range (item # rest) text =
     (if Contains text item then True else Contain_range rest text)"

definition Contain :: "KeyWord \<Rightarrow> string \<Rightarrow> bool" where
  "Contain g text = Contain_range (words g) text"

section \<open>The data-type table\<close>

type_synonym dataTypeMapping = "string \<Rightarrow> string"

type_synonym dataTypeMap = "string \<rightharpoonup> dataTypeMapping"

definition defaultDataType :: string where
  "defaultDataType = ''string''"

definition tinyint_mapping :: "unicode_fallback \<Rightarrow> dataTypeMapping" where
  \<comment> \<open>the function literal stored under \<open>"tinyint"\<close>\<close>
  "tinyint_mapping U detailType =
     (if HasPrefix (TrimSpace U detailType) ''tinyint(1)'' then ''bool'' else ''int32'')"

definition dataType :: "unicode_fallback \<Rightarrow> dataTypeMap" where
  \<comment> \<open>the initial value of the package variable \<open>dataType\<close>\<close>
  "dataType U = map_of
     [(''numeric'', \<lambda>_. ''int32''),
      (''integer'', \<lambda>_. ''int32''),
      (''int'', \<lambda>_. ''int32''),
      (''smallint'', \<lambda>_. ''int32''),
      (''mediumint'', \<lambda>_. ''int32''),
      (''bigint'', \<lambda>_. ''int64''),
      (''float'', \<lambda>_. ''float32''),
      (''real'', \<lambda>_. ''float64''),
      (''double'', \<lambda>_. ''float64''),
      (''decimal'', \<lambda>_. ''float64''),
      (''char'', \<lambda>_. ''string''),
      (''varchar'', \<lambda>_. ''string''),
      (''tinytext'', \<lambda>_. ''string''),
      (''mediumtext'', \<lambda>_. ''string''),
      (''longtext'', \<lambda>_. ''string''),
      (''binary'', \<lambda>_. ''[]byte''),
      (''varbinary'', \<lambda>_. ''[]byte''),
      (''tinyblob'', \<lambda>_. ''[]byte''),
      (''blob'', \<lambda>_. ''[]byte''),
      (''mediumblob'', \<lambda>_. ''[]byte''),
      (''longblob'', \<lambda>_. ''[]byte''),
      (''text'', \<lambda>_. ''string''),
      (''json'', \<lambda>_. ''string''),
      (''enum'', \<lambda>_. ''string''),
      (''time'', \<lambda>_. ''time.Time''),
      (''date'', \<lambda>_. ''time.Time''),
      (''datetime'', \<lambda>_. ''time.Time''),
      (''timestamp'', \<lambda>_. ''time.Time''),
      (''year'', \<lambda>_. ''int32''),
      (''bit'', \<lambda>_. ''[]uint8''),
      (''boolean'', \<lambda>_. ''bool''),
      (''tinyint'', tinyint_mapping U)]"

definition Get :: "unicode_fallback \<Rightarrow> dataTypeMap \<Rightarrow> string \<Rightarrow> string \<Rightarrow> string" where
  \<comment> \<open>\<open>func (m dataTypeMap) Get(dataType, detailType string) string\<close>\<close>
  "Get U m dataType_name detailType =
     (case m (ToLower U dataType_name) of
        Some convert \<Rightarrow> convert detailType
      | None \<Rightarrow> defaultDataType)"

definition GetDataType :: "unicode_fallback \<Rightarrow> dataTypeMap \<Rightarrow> string \<Rightarrow> string" where
  \<comment> \<open>reads the package variable, here the argument \<open>m\<close>\<close>
  "GetDataType U m sqlDataType = Get U m sqlDataType ''''"

definition SetDataType :: "dataTypeMap \<Rightarrow> string \<Rightarrow> dataTypeMapping \<Rightarrow> dataTypeMap" where
  \<comment> \<open>\<open>dataType[dbType] = getTypeFunc\<close>; returns the updated package variable\<close>
  "SetDataType m dbType getTypeFunc = m(dbType \<mapsto> getTypeFunc)"

section \<open>Field descriptors\<close>

text \<open>
  \<open>field.Tag\<close> is indexed by a key and holds strings, so it is a Go map from strings to
  strings. A Go map is either nil (the zero value of the field) or a map: indexing a nil
  map finds no key, a write to a nil map panics. So \<open>Tag\<close> is an \<open>option\<close>: \<open>None\<close> is the
  nil map and \<open>Some t\<close> is a map with the entries \<open>t\<close>. \<open>field.GormTag\<close> and
  \<open>field.Relation\<close> are left abstract (type variables), and the pointer
  \<open>*field.Relation\<close> is an \<open>option\<close>. Package \<open>field\<close> is a collaborator of \<open>base.go\<close>: its
  constant \<open>TagKeyGorm\<close> and the two renderers are taken as the fields of the record
  \<open>field_pkg\<close>, and every theorem holds for all values of it.
\<close>

type_synonym Tag = "(string \<rightharpoonup> string) option"

datatype error = AssignNilMap

record ('g, 'r) Field =
  Name :: string
  Type :: string
  ColumnName :: string
  ColumnComment :: string
  MultilineComment :: bool
  Tag :: Tag
  GORMTag :: 'g
  CustomGenType :: string
  Relation :: "'r option"

record 'g field_pkg =
  TagKeyGorm :: string
  Tag_Build :: "Tag \<Rightarrow> string"
  GormTag_Build :: "'g \<Rightarrow> string"

definition Tag_index :: "Tag \<Rightarrow> string \<Rightarrow> string option" where
  \<comment> \<open>\<open>v, ok := tag[key]\<close>: on a nil map no key is found\<close>
  "Tag_index tag key = (case tag of None \<Rightarrow> None | Some t \<Rightarrow> t key)"

definition Tag_Set :: "Tag \<Rightarrow> string \<Rightarrow> string \<Rightarrow> error + Tag" where
  \<comment> \<open>Modelled from the spec: \<open>field.Tag.Set\<close> is not part of \<open>base.go\<close>; it "installs"
      the value under the key, and later lookups of the key find it. \<open>base.go\<close> discards
      its result, so the value can only be installed by a write to the map the
      descriptor holds; on a nil map that write panics (assignment to entry in nil
      map), which is the error \<open>AssignNilMap\<close>.\<close>
  "Tag_Set tag key v =
     (case tag of None \<Rightarrow> Inl AssignNilMap | Some t \<Rightarrow> Inr (Some (t(key \<mapsto> v))))"

definition Tags ::
  "unicode_fallback \<Rightarrow> 'g field_pkg \<Rightarrow> ('g, 'r) Field \<Rightarrow> error + string \<times> ('g, 'r) Field"
  where
  \<comment> \<open>returns the string and the descriptor as the call leaves it, or the panic\<close>
  "Tags U F m =
     (if Tag_index (Tag m) (TagKeyGorm F) \<noteq> None then Inr (Tag_Build F (Tag m), m)
      else
        let gormTag = TrimSpace U (GormTag_Build F (GORMTag m)) in
        if gormTag \<noteq> '''' then
          (case Tag_Set (Tag m) (TagKeyGorm F) gormTag of
             Inl e \<Rightarrow> Inl e
           | Inr tag' \<Rightarrow> Inr (Tag_Build F tag', m\<lparr>Tag := tag'\<rparr>))
        else Inr (Tag_Build F (Tag m), m))"

definition IsRelation :: "('g, 'r) Field \<Rightarrow> bool" where
  "IsRelation m = (Relation m \<noteq> None)"

definition GenType :: "('g, 'r) Field \<Rightarrow> string" where
  "GenType m =
     (if IsRelation m then Type m
      else if CustomGenType m \<noteq> '''' then CustomGenType m
      else
        let typ = trimLeftByte (Type m) (CHR ''*'') in
        if typ \<in> set [''string'', ''bytes''] then Title typ
        else if typ \<in> set [''int'', ''int8'', ''int16'', ''int32'', ''int64'',
                            ''uint'', ''uint8'', ''uint16'', ''uint32'', ''uint64'']
          then Title typ
        else if typ \<in> set [''float64'', ''float32''] then Title typ
        else if typ = ''bool'' then Title typ
        else if typ = ''time.Time'' then ''Time''
        else if typ \<in> set [''json.RawMessage'', ''[]byte''] then ''Bytes''
        else if typ = ''serializer'' then ''Serializer''
        else ''Field'')"

definition EscapeKeywordFor :: "('g, 'r) Field \<Rightarrow> KeyWord \<Rightarrow> ('g, 'r) Field" where
  \<comment> \<open>\<open>if keywords.FullMatch(m.Name) { m.Name += "_" }; return m\<close>\<close>
  "EscapeKeywordFor m keywords =
     (if FullMatch keywords (Name m) then m\<lparr>Name := Name m @ ''_''\<rparr> else m)"

definition EscapeKeyword :: "('g, 'r) Field \<Rightarrow> ('g, 'r) Field" where
  "EscapeKeyword m = EscapeKeywordFor m GormKeywords"

section \<open>The SQL buffer\<close>

text \<open>
  \<open>SQLBuffer\<close> embeds a \<open>bytes.Buffer\<close>; nothing in \<open>base.go\<close> reads from it, so its state
  is the sequence of bytes written and not yet reset.
\<close>

record SQLBuffer =
  Buffer :: string

definition zero_SQLBuffer :: SQLBuffer where
  \<comment> \<open>the zero value \<open>SQLBuffer{}\<close>\<close>
  "zero_SQLBuffer = \<lparr>Buffer = ''''\<rparr>"

definition Len :: "SQLBuffer \<Rightarrow> nat" where
  "Len s = length (Buffer s)"

definition Bytes :: "SQLBuffer \<Rightarrow> string" where
  "Bytes s = Buffer s"

definition WriteByte :: "SQLBuffer \<Rightarrow> char \<Rightarrow> SQLBuffer" where
  "WriteByte s c = s\<lparr>Buffer := Buffer s @ [c]\<rparr>"

definition String :: "SQLBuffer \<Rightarrow> string" where
  "String s = Buffer s"

definition Reset :: "SQLBuffer \<Rightarrow> SQLBuffer" where
  "Reset s = s\<lparr>Buffer := ''''\<rparr>"

definition WriteSQL :: "SQLBuffer \<Rightarrow> char \<Rightarrow> SQLBuffer" where
  "WriteSQL s b =
     (if b = CHR 0x0A \<or> b = CHR 0x09 \<or> b = CHR '' '' then
        (if Len s = 0 \<or> Bytes s ! (Len s - 1) \<noteq> CHR '' '' then WriteByte s (CHR '' '')
         else s)
      else WriteByte s b)"

definition Dump :: "SQLBuffer \<Rightarrow> string \<times> SQLBuffer" where
  \<comment> \<open>\<open>defer s.Reset(); return s.String()\<close>: the string is taken, then the buffer reset\<close>
  "Dump s = (String s, Reset s)"

section \<open>Notions of the specification\<close>

text \<open>
  The specification calls space, tab and newline the whitespace bytes; the predicate
  \<open>no_adjacent_whitespace\<close> says that no two neighbours of a text are both whitespace.
  \<open>collapsed\<close> is the stronger invariant the buffer keeps: also, no tab or newline at all.
\<close>

definition whitespace_byte :: "char \<Rightarrow> bool" where
  "whitespace_byte b = (b = CHR '' '' \<or> b = CHR 0x09 \<or> b = CHR 0x0A)"

fun no_adjacent_whitespace :: "string \<Rightarrow> bool" where
  "no_adjacent_whitespace (a # b # s) =
     (\<not> (whitespace_byte a \<and> whitespace_byte b) \<and> no_adjacent_whitespace (b # s))"
| "no_adjacent_whitespace s = True"

definition collapsed :: "string \<Rightarrow> bool" where
  "collapsed s = (no_adjacent_whitespace s \<and> CHR 0x09 \<notin> set s \<and> CHR 0x0A \<notin> set s)"

text \<open>
  The classification of the specification as a table: the primitive names go to their
  capitalised forms, the timestamp type to \<open>"Time"\<close>, the raw byte types to \<open>"Bytes"\<close>,
  the serializer marker to \<open>"Serializer"\<close>, anything else to \<open>"Field"\<close>.
\<close>

definition kind_table :: "(string \<times> string) list" where
  "kind_table =
     [(''string'', ''String''), (''bytes'', ''Bytes''),
      (''int'', ''Int''), (''int8'', ''Int8''), (''int16'', ''Int16''), (''int32'', ''Int32''),
      (''int64'', ''Int64''), (''uint'', ''Uint''), (''uint8'', ''Uint8''),
      (''uint16'', ''Uint16''), (''uint32'', ''Uint32''), (''uint64'', ''Uint64''),
      (''float64'', ''Float64''), (''float32'', ''Float32''),
      (''bool'', ''Bool''),
      (''time.Time'', ''Time''),
      (''json.RawMessage'', ''Bytes''), (''[]byte'', ''Bytes''),
      (''serializer'', ''Serializer'')]"

definition kind_of :: "string \<Rightarrow> string" where
  "kind_of typ = (case map_of kind_table typ of Some k \<Rightarrow> k | None \<Rightarrow> ''Field'')"

text \<open>
  The specification's reading of the third step of \<open>GenType\<close>: a single leading marker is
  stripped before the classification.
\<close>

definition strip_single_marker :: "string \<Rightarrow> string" where
  "strip_single_marker s = (case s of [] \<Rightarrow> [] | c # r \<Rightarrow> if c = CHR ''*'' then r else s)"

definition GenType_single_strip :: "('g, 'r) Field \<Rightarrow> string" where
  "GenType_single_strip m =
     (if IsRelation m then Type m
      else if CustomGenType m \<noteq> '''' then CustomGenType m
      else kind_of (strip_single_marker (Type m)))"

definition double_pointer_field :: "(unit, unit) Field" where
  "double_pointer_field =
     \<lparr>Name = ''Next'', Type = ''**int64'', ColumnName = ''next'', ColumnComment = '''',
      MultilineComment = False, Tag = Some Map.empty, GORMTag = (), CustomGenType = '''',
      Relation = None\<rparr>"

text \<open>The switch statement of \<open>GenType\<close> on its own, for the proofs.\<close>

definition switch_of :: "string \<Rightarrow> string" where
  "switch_of typ =
        (if typ \<in> set [''string'', ''bytes''] then Title typ
        else if typ \<in> set [''int'', ''int8'', ''int16'', ''int32'', ''int64'',
                            ''uint'', ''uint8'', ''uint16'', ''uint32'', ''uint64'']
          then Title typ
        else if typ \<in> set [''float64'', ''float32''] then Title typ
        else if typ = ''bool'' then Title typ
        else if typ = ''time.Time'' then ''Time''
        else if typ \<in> set [''json.RawMessage'', ''[]byte''] then ''Bytes''
        else if typ = ''serializer'' then ''Serializer''
        else ''Field'')"

text \<open>
  A word ends in an underscore: the property of the keyword lists that the escaping of
  names relies on.
\<close>

definition ends_in_underscore :: "string \<Rightarrow> bool" where
  "ends_in_underscore w = (w \<noteq> [] \<and> last w = CHR ''_'')"

text \<open>
  A sample of package \<open>field\<close> and two descriptors with a secondary tag only, for
  evaluating \<open>Tags\<close>: the sample renders the entry under \<open>"gorm"\<close> as \<open>gorm:\<close> followed by
  its value. \<open>column_field\<close> holds an empty map, \<open>nil_tag_field\<close> the nil map (the
  descriptor \<open>Field{Name: "ID", ..., GORMTag: ...}\<close> built without a \<open>Tag\<close>).
\<close>

definition sample_field_pkg :: "string field_pkg" where
  "sample_field_pkg =
     \<lparr>TagKeyGorm = ''gorm'',
      Tag_Build = (\<lambda>t. case Tag_index t ''gorm'' of None \<Rightarrow> '''' | Some v \<Rightarrow> ''gorm:'' @ v),
      GormTag_Build = (\<lambda>g. g)\<rparr>"

definition column_field :: "(string, unit) Field" where
  "column_field =
     \<lparr>Name = ''ID'', Type = ''int64'', ColumnName = ''id'', ColumnComment = '''',
      MultilineComment = False, Tag = Some Map.empty, GORMTag = '' column:id '',
      CustomGenType = '''', Relation = None\<rparr>"

definition nil_tag_field :: "(string, unit) Field" where
  "nil_tag_field =
     \<lparr>Name = ''ID'', Type = ''int64'', ColumnName = ''id'', ColumnComment = '''',
      MultilineComment = False, Tag = None, GORMTag = '' column:id '',
      CustomGenType = '''', Relation = None\<rparr>"

section \<open>Keyword sets: exact and substring matching\<close>

lemma FullMatch_range_iff: "FullMatch_range ws w \<longleftrightarrow> w \<in> set ws"
  by (induction ws) auto

lemma HasPrefix_iff_prefix: "HasPrefix s p \<longleftrightarrow> prefix p s"
proof
  assume "HasPrefix s p"
  then have "s = p @ drop (length p) s"
    by (metis HasPrefix_def append_take_drop_id)
  then show "prefix p s" by (metis prefixI)
next
  assume "prefix p s"
  then show "HasPrefix s p" by (auto simp: HasPrefix_def prefix_def)
qed

lemma Index_from_found: "0 \<le> Index_from i s sub \<longleftrightarrow> sublist sub s"
proof (induction s arbitrary: i)
  case Nil
  show ?case by simp
next
  case (Cons c s)
  show ?case
    by (simp add: Cons.IH HasPrefix_iff_prefix sublist_Cons_right)
qed

lemma Contains_iff_sublist: "Contains s sub \<longleftrightarrow> sublist sub s"
  by (simp add: Contains_def Index_def Index_from_found)

lemma Contain_range_iff: "Contain_range ws t \<longleftrightarrow> (\<exists>item \<in> set ws. sublist item t)"
  by (induction ws) (auto simp: Contains_iff_sublist)

lemma Gorm_FullMatch_Find: "FullMatch GormKeywords ''Find''"
  by (simp add: FullMatch_def GormKeywords_def)

lemma Gorm_FullMatch_findAll: "\<not> FullMatch GormKeywords ''findAll''"
  by (simp add: FullMatch_def GormKeywords_def)

lemma Gorm_Contain_myFindByID: "Contain GormKeywords ''myFindByID''"
  unfolding Contain_def Contain_range_iff
proof (rule bexI[of _ "''Find''"])
  show "sublist ''Find'' ''myFindByID''"
    by (rule sublist_appendI[of "''Find''" "''my''" "''ByID''", simplified])
  show "''Find'' \<in> set (words GormKeywords)"
    by (simp add: GormKeywords_def)
qed

text \<open>
  Claim C8. For every keyword set and every string, \<open>FullMatch\<close> holds exactly when the
  word is a member of the set (equality of byte strings, so case-sensitive), and
  \<open>Contain\<close> holds exactly when some member occurs as a contiguous substring of the text.
  For the query-builder set, \<open>FullMatch "Find"\<close> is true, \<open>FullMatch "findAll"\<close> is false
  and \<open>Contain "myFindByID"\<close> is true.
\<close>

theorem KeyWord_FullMatch_Contain:
  "(FullMatch g word \<longleftrightarrow> word \<in> set (words g))
   \<and> (Contain g text \<longleftrightarrow> (\<exists>item \<in> set (words g). sublist item text))
   \<and> FullMatch GormKeywords ''Find''
   \<and> \<not> FullMatch GormKeywords ''findAll''
   \<and> Contain GormKeywords ''myFindByID''"
  using Gorm_FullMatch_Find Gorm_FullMatch_findAll Gorm_Contain_myFindByID
  by (simp add: FullMatch_def FullMatch_range_iff Contain_def Contain_range_iff)

theorem KeyWord_FullMatch_Contain_witness:
  "(FullMatch DOKeywords ''Alias'' \<longleftrightarrow> ''Alias'' \<in> set (words DOKeywords))
   \<and> (Contain DOKeywords ''getTableNames'' \<longleftrightarrow>
        (\<exists>item \<in> set (words DOKeywords). sublist item ''getTableNames''))
   \<and> FullMatch GormKeywords ''Find''
   \<and> \<not> FullMatch GormKeywords ''findAll''
   \<and> Contain GormKeywords ''myFindByID''"
  by (rule KeyWord_FullMatch_Contain)

section \<open>The SQL buffer: whitespace is collapsed, Dump drains\<close>

lemma no_adjacent_whitespace_snoc:
  "no_adjacent_whitespace (s @ [b]) \<longleftrightarrow>
     no_adjacent_whitespace s \<and> (s = [] \<or> \<not> (whitespace_byte (last s) \<and> whitespace_byte b))"
  by (induction s rule: no_adjacent_whitespace.induct) auto

lemma WriteSQL_whitespace:
  "whitespace_byte b \<Longrightarrow>
   WriteSQL s b = (if Buffer s = [] \<or> last (Buffer s) \<noteq> CHR '' ''
                   then s\<lparr>Buffer := Buffer s @ '' ''\<rparr> else s)"
  by (auto simp: WriteSQL_def whitespace_byte_def Len_def Bytes_def WriteByte_def last_conv_nth)

lemma WriteSQL_other:
  "\<not> whitespace_byte b \<Longrightarrow> WriteSQL s b = s\<lparr>Buffer := Buffer s @ [b]\<rparr>"
  by (auto simp: WriteSQL_def whitespace_byte_def WriteByte_def)

lemma collapsed_step: "collapsed (Buffer s) \<Longrightarrow> collapsed (Buffer (WriteSQL s b))"
proof (cases "whitespace_byte b")
  case True
  assume c: "collapsed (Buffer s)"
  have m: "Buffer s \<noteq> [] \<Longrightarrow> last (Buffer s) \<in> set (Buffer s)"
    by simp
  have "Buffer s \<noteq> [] \<Longrightarrow> whitespace_byte (last (Buffer s)) \<Longrightarrow> last (Buffer s) = CHR '' ''"
  proof -
    assume ne: "Buffer s \<noteq> []" and w: "whitespace_byte (last (Buffer s))"
    from m[OF ne] c have "last (Buffer s) \<noteq> CHR 0x09" "last (Buffer s) \<noteq> CHR 0x0A"
      unfolding collapsed_def by metis+
    with w show ?thesis by (simp add: whitespace_byte_def)
  qed
  with True c show ?thesis
    by (auto simp: WriteSQL_whitespace collapsed_def no_adjacent_whitespace_snoc
        whitespace_byte_def)
next
  case False
  assume "collapsed (Buffer s)"
  with False show ?thesis
    by (auto simp: WriteSQL_other collapsed_def no_adjacent_whitespace_snoc whitespace_byte_def)
qed

lemma collapsed_foldl:
  "collapsed (Buffer s) \<Longrightarrow> collapsed (Buffer (foldl WriteSQL s bs))"
  by (induction bs arbitrary: s) (auto simp: collapsed_step)

lemma collapsed_from_zero: "collapsed (Buffer (foldl WriteSQL zero_SQLBuffer bs))"
  by (rule collapsed_foldl) (simp add: collapsed_def zero_SQLBuffer_def)

lemma Dump_mixed_run:
  "Dump (foldl WriteSQL zero_SQLBuffer
           [CHR ''a'', CHR 0x0A, CHR 0x09, CHR '' '', CHR '' '', CHR ''b''])
     = (''a b'', zero_SQLBuffer)"
  by (simp add: WriteSQL_def Dump_def zero_SQLBuffer_def Len_def Bytes_def WriteByte_def
      String_def Reset_def)

text \<open>
  Claim C4. One call of \<open>WriteSQL\<close> with a whitespace byte (space, tab or newline) appends
  a single space when the buffer is empty or does not end in a space, and leaves the
  buffer as it is otherwise; with any other byte it appends that byte unchanged. After
  any sequence of bytes fed through \<open>WriteSQL\<close> into a fresh buffer, no two neighbouring
  bytes of the accumulated text are both whitespace. Feeding the bytes of
  \<open>"a\n\t  b"\<close> and draining yields \<open>"a b"\<close>.
\<close>

theorem WriteSQL_collapses_whitespace:
  "(whitespace_byte b \<longrightarrow>
      WriteSQL s b = (if Buffer s = [] \<or> last (Buffer s) \<noteq> CHR '' ''
                      then s\<lparr>Buffer := Buffer s @ '' ''\<rparr> else s))
   \<and> (\<not> whitespace_byte b \<longrightarrow> WriteSQL s b = s\<lparr>Buffer := Buffer s @ [b]\<rparr>)
   \<and> no_adjacent_whitespace (Buffer (foldl WriteSQL zero_SQLBuffer bs))
   \<and> Dump (foldl WriteSQL zero_SQLBuffer
             [CHR ''a'', CHR 0x0A, CHR 0x09, CHR '' '', CHR '' '', CHR ''b''])
       = (''a b'', zero_SQLBuffer)"
proof -
  have "no_adjacent_whitespace (Buffer (foldl WriteSQL zero_SQLBuffer bs))"
    using collapsed_from_zero[of bs] by (simp add: collapsed_def)
  then show ?thesis
    using WriteSQL_whitespace[of b s] WriteSQL_other[of b s] Dump_mixed_run by blast
qed

theorem WriteSQL_collapses_whitespace_witness:
  "whitespace_byte (CHR 0x09)
   \<and> WriteSQL \<lparr>Buffer = ''a ''\<rparr> (CHR 0x09) = \<lparr>Buffer = ''a ''\<rparr>
   \<and> WriteSQL \<lparr>Buffer = ''a''\<rparr> (CHR 0x09) = \<lparr>Buffer = ''a ''\<rparr>
   \<and> \<not> whitespace_byte (CHR ''b'')
   \<and> WriteSQL \<lparr>Buffer = ''a ''\<rparr> (CHR ''b'') = \<lparr>Buffer = ''a b''\<rparr>
   \<and> no_adjacent_whitespace (Buffer (foldl WriteSQL zero_SQLBuffer ''x   y  ''))"
  using WriteSQL_collapses_whitespace[of "CHR 0x09" "\<lparr>Buffer = ''a ''\<rparr>" "''x   y  ''"]
    WriteSQL_collapses_whitespace[of "CHR 0x09" "\<lparr>Buffer = ''a''\<rparr>" "''x   y  ''"]
    WriteSQL_collapses_whitespace[of "CHR ''b''" "\<lparr>Buffer = ''a ''\<rparr>" "''x   y  ''"]
  by (simp add: whitespace_byte_def)

text \<open>
  Claim C9. \<open>Dump\<close> returns the whole accumulated text and leaves the buffer empty:
  draining a buffer that was never fed yields the empty string, a second \<open>Dump\<close> right
  after a first yields the empty string, and after a drain, feeding \<open>"x"\<close> and draining
  again yields exactly \<open>"x"\<close>, whatever the buffer held before the first drain.
\<close>

theorem Dump_drains_and_resets:
  "fst (Dump s) = Buffer s
   \<and> snd (Dump s) = zero_SQLBuffer
   \<and> Dump zero_SQLBuffer = ('''', zero_SQLBuffer)
   \<and> fst (Dump (snd (Dump s))) = ''''
   \<and> Dump (WriteSQL (snd (Dump s)) (CHR ''x'')) = (''x'', zero_SQLBuffer)"
  by (simp add: Dump_def String_def Reset_def zero_SQLBuffer_def WriteSQL_def WriteByte_def
      Len_def)

theorem Dump_drains_and_resets_witness:
  "fst (Dump \<lparr>Buffer = ''SELECT 1 ''\<rparr>) = ''SELECT 1 ''
   \<and> snd (Dump \<lparr>Buffer = ''SELECT 1 ''\<rparr>) = zero_SQLBuffer
   \<and> fst (Dump (snd (Dump \<lparr>Buffer = ''SELECT 1 ''\<rparr>))) = ''''
   \<and> Dump (WriteSQL (snd (Dump \<lparr>Buffer = ''SELECT 1 ''\<rparr>)) (CHR ''x''))
       = (''x'', zero_SQLBuffer)"
  using Dump_drains_and_resets[of "\<lparr>Buffer = ''SELECT 1 ''\<rparr>"]
  by (simp add: Dump_def String_def Reset_def zero_SQLBuffer_def)

section \<open>The data-type table: lookup, default and registration\<close>

lemma ToLower_tinyint: "ToLower U ''tinyint'' = ''tinyint''"
  by (simp add: ToLower_def isASCII_def RuneSelf_def lowerByte_def)

lemma dataType_tinyint: "dataType U ''tinyint'' = Some (tinyint_mapping U)"
  by (simp add: dataType_def)

lemma Get_tinyint:
  "Get U (dataType U) ''tinyint'' d =
     (if prefix ''tinyint(1)'' (TrimSpace U d) then ''bool'' else ''int32'')"
  by (simp add: Get_def ToLower_tinyint dataType_tinyint tinyint_mapping_def HasPrefix_iff_prefix)

lemma TrimSpace_tinyint1_unsigned:
  "TrimSpace U ''tinyint(1) unsigned'' = ''tinyint(1) unsigned''"
  by (simp add: isASCII_def RuneSelf_def asciiSpace_def)

lemma TrimSpace_tinyint4: "TrimSpace U ''tinyint(4)'' = ''tinyint(4)''"
  by (simp add: isASCII_def RuneSelf_def asciiSpace_def)

lemma TrimSpace_padded_tinyint1:
  "TrimSpace U [CHR 0x09, CHR '' '', CHR ''t'', CHR ''i'', CHR ''n'', CHR ''y'', CHR ''i'',
                CHR ''n'', CHR ''t'', CHR ''('', CHR ''1'', CHR '')'', CHR 0x0D, CHR 0x0A]
     = ''tinyint(1)''"
  by (simp add: isASCII_def RuneSelf_def asciiSpace_def)

lemma Get_tinyint1_unsigned:
  "Get U (dataType U) ''tinyint'' ''tinyint(1) unsigned'' = ''bool''"
  unfolding Get_tinyint TrimSpace_tinyint1_unsigned by simp

lemma Get_tinyint4: "Get U (dataType U) ''tinyint'' ''tinyint(4)'' = ''int32''"
  unfolding Get_tinyint TrimSpace_tinyint4 by simp

lemma Get_tinyint_empty: "Get U (dataType U) ''tinyint'' '''' = ''int32''"
  unfolding Get_tinyint by simp

text \<open>
  Claim C2. On the built-in table, \<open>Get "tinyint" d\<close> is \<open>"bool"\<close> exactly when the detail
  string, trimmed by \<open>strings.TrimSpace\<close>, begins with \<open>"tinyint(1)"\<close>, and \<open>"int32"\<close> for
  every other detail string. In particular \<open>"tinyint(1) unsigned"\<close> gives \<open>"bool"\<close>, and
  \<open>"tinyint(4)"\<close> and the empty detail give \<open>"int32"\<close>.
\<close>

theorem Get_tinyint_bool_iff_prefix:
  "(Get U (dataType U) ''tinyint'' d = ''bool'' \<longleftrightarrow> prefix ''tinyint(1)'' (TrimSpace U d))
   \<and> (\<not> prefix ''tinyint(1)'' (TrimSpace U d) \<longrightarrow> Get U (dataType U) ''tinyint'' d = ''int32'')
   \<and> Get U (dataType U) ''tinyint'' ''tinyint(1) unsigned'' = ''bool''
   \<and> Get U (dataType U) ''tinyint'' ''tinyint(4)'' = ''int32''
   \<and> Get U (dataType U) ''tinyint'' '''' = ''int32''"
proof -
  have "Get U (dataType U) ''tinyint'' d = ''bool'' \<longleftrightarrow> prefix ''tinyint(1)'' (TrimSpace U d)"
    unfolding Get_tinyint by simp
  moreover have
    "\<not> prefix ''tinyint(1)'' (TrimSpace U d) \<longrightarrow> Get U (dataType U) ''tinyint'' d = ''int32''"
    unfolding Get_tinyint by simp
  ultimately show ?thesis
    using Get_tinyint1_unsigned[of U] Get_tinyint4[of U] Get_tinyint_empty[of U] by blast
qed

theorem Get_tinyint_bool_iff_prefix_witness:
  "\<not> prefix ''tinyint(1)'' (TrimSpace ascii_only ''tinyint(4)'')
   \<and> Get ascii_only (dataType ascii_only) ''tinyint'' ''tinyint(4)'' = ''int32''
   \<and> prefix ''tinyint(1)''
        (TrimSpace ascii_only
           [CHR 0x09, CHR '' '', CHR ''t'', CHR ''i'', CHR ''n'', CHR ''y'', CHR ''i'',
            CHR ''n'', CHR ''t'', CHR ''('', CHR ''1'', CHR '')'', CHR 0x0D, CHR 0x0A])
   \<and> Get ascii_only (dataType ascii_only) ''tinyint''
          [CHR 0x09, CHR '' '', CHR ''t'', CHR ''i'', CHR ''n'', CHR ''y'', CHR ''i'',
           CHR ''n'', CHR ''t'', CHR ''('', CHR ''1'', CHR '')'', CHR 0x0D, CHR 0x0A] = ''bool''"
proof -
  have a: "\<not> prefix ''tinyint(1)'' (TrimSpace ascii_only ''tinyint(4)'')"
    unfolding TrimSpace_tinyint4 by simp
  have b: "prefix ''tinyint(1)''
        (TrimSpace ascii_only
           [CHR 0x09, CHR '' '', CHR ''t'', CHR ''i'', CHR ''n'', CHR ''y'', CHR ''i'',
            CHR ''n'', CHR ''t'', CHR ''('', CHR ''1'', CHR '')'', CHR 0x0D, CHR 0x0A])"
    unfolding TrimSpace_padded_tinyint1 by simp
  show ?thesis
    using a b Get_tinyint_bool_iff_prefix[of ascii_only "''tinyint(4)''"]
      Get_tinyint_bool_iff_prefix[of ascii_only
        "[CHR 0x09, CHR '' '', CHR ''t'', CHR ''i'', CHR ''n'', CHR ''y'', CHR ''i'',
          CHR ''n'', CHR ''t'', CHR ''('', CHR ''1'', CHR '')'', CHR 0x0D, CHR 0x0A]"]
    by blast
qed

lemma Get_unmapped: "m (ToLower U t) = None \<Longrightarrow> Get U m t d = ''string''"
  by (simp add: Get_def defaultDataType_def)

lemma ToLower_nonexistent_type: "ToLower U ''nonexistent_type'' = ''nonexistent_type''"
  by (simp add: ToLower_def isASCII_def RuneSelf_def lowerByte_def)

lemma dataType_nonexistent_type: "dataType U ''nonexistent_type'' = None"
  by (simp add: dataType_def)

lemma ToLower_UUID: "ToLower U ''UUID'' = ''uuid''"
  by (simp add: ToLower_def isASCII_def RuneSelf_def lowerByte_def char_of_eq_iff)

lemma dataType_uuid: "dataType U ''uuid'' = None"
  by (simp add: dataType_def)

lemma Get_nonexistent_type: "Get U (dataType U) ''nonexistent_type'' '''' = ''string''"
  by (rule Get_unmapped) (simp only: ToLower_nonexistent_type dataType_nonexistent_type)

text \<open>
  Claim C7. Whatever the table holds, a type name whose lower-cased form is not a key of
  the table is mapped to the default \<open>"string"\<close>, for every detail string; on the built-in
  table \<open>Get "nonexistent_type" ""\<close> is \<open>"string"\<close>.
\<close>

theorem Get_unmapped_is_default:
  "(m (ToLower U t) = None \<longrightarrow> Get U m t d = ''string'')
   \<and> Get U (dataType U) ''nonexistent_type'' '''' = ''string''"
  using Get_unmapped[of m U t d] Get_nonexistent_type[of U] by blast

theorem Get_unmapped_is_default_witness:
  "dataType ascii_only (ToLower ascii_only ''UUID'') = None
   \<and> Get ascii_only (dataType ascii_only) ''UUID'' ''uuid'' = ''string''"
proof -
  have h: "dataType ascii_only (ToLower ascii_only ''UUID'') = None"
    by (simp only: ToLower_UUID dataType_uuid)
  show ?thesis
    using h Get_unmapped_is_default[of "dataType ascii_only" ascii_only "''UUID''" "''uuid''"]
    by blast
qed

text \<open>
  Claim C10. \<open>GetDataType t\<close> is \<open>Get t ""\<close> on the package table. For a type name that
  the table does not map it returns \<open>"string"\<close>, which is not the empty string, and on
  the built-in table \<open>GetDataType "tinyint"\<close> is \<open>"int32"\<close>.
\<close>

theorem GetDataType_is_Get_empty_detail:
  "GetDataType U m t = Get U m t ''''
   \<and> (m (ToLower U t) = None \<longrightarrow> GetDataType U m t = ''string'' \<and> GetDataType U m t \<noteq> '''')
   \<and> GetDataType U (dataType U) ''tinyint'' = ''int32''"
proof -
  have "m (ToLower U t) = None \<longrightarrow> GetDataType U m t = ''string'' \<and> GetDataType U m t \<noteq> ''''"
    by (simp add: GetDataType_def Get_unmapped)
  moreover have "GetDataType U (dataType U) ''tinyint'' = ''int32''"
    unfolding GetDataType_def by (rule Get_tinyint_empty)
  ultimately show ?thesis
    by (simp add: GetDataType_def)
qed

theorem GetDataType_is_Get_empty_detail_witness:
  "dataType ascii_only (ToLower ascii_only ''UUID'') = None
   \<and> GetDataType ascii_only (dataType ascii_only) ''UUID'' = ''string''
   \<and> GetDataType ascii_only (dataType ascii_only) ''UUID'' \<noteq> ''''"
proof -
  have h: "dataType ascii_only (ToLower ascii_only ''UUID'') = None"
    by (simp only: ToLower_UUID dataType_uuid)
  show ?thesis
    using h GetDataType_is_Get_empty_detail[of ascii_only "dataType ascii_only" "''UUID''"]
    by blast
qed

lemma ToLower_Custom: "ToLower U ''Custom'' = ''custom''"
  by (simp add: ToLower_def isASCII_def RuneSelf_def lowerByte_def char_of_eq_iff)

lemma SetDataType_other_key: "k' \<noteq> k \<Longrightarrow> SetDataType m k fn k' = m k'"
  by (simp add: SetDataType_def)

lemma dataType_custom: "dataType U ''custom'' = None"
  by (simp add: dataType_def)

lemma Get_after_Set_normalised:
  "ToLower U k' = k \<Longrightarrow> Get U (SetDataType m k fn) k' d = fn d"
  by (simp add: Get_def SetDataType_def)

lemma Get_after_Set_twice_normalised:
  "ToLower U k' = k \<Longrightarrow> Get U (SetDataType (SetDataType m k fn) k fn2) k' d = fn2 d"
  by (simp add: Get_def SetDataType_def)

lemma Get_after_Set_Custom:
  "Get U (SetDataType (dataType U) ''Custom'' fn) ''Custom'' d = ''string''"
proof (rule Get_unmapped)
  have "SetDataType (dataType U) ''Custom'' fn ''custom'' = dataType U ''custom''"
    by (rule SetDataType_other_key) simp
  then show "SetDataType (dataType U) ''Custom'' fn (ToLower U ''Custom'') = None"
    by (simp only: ToLower_Custom dataType_custom)
qed

text \<open>
  Claim C1, evaluated where it fails. \<open>SetDataType\<close> stores the mapping under the key as
  given, \<open>Get\<close> looks the lower-cased name up. After \<open>SetDataType "Custom" fn\<close> on the
  built-in table, with \<open>fn\<close> returning \<open>"X"\<close>, \<open>Get "Custom" "d"\<close> finds nothing under
  \<open>"custom"\<close> and returns the default \<open>"string"\<close>, not \<open>fn "d" = "X"\<close>. (For a key that is
  its own lower-cased form the round trip holds: \<open>Get_after_Set_normalised\<close>.)
\<close>

theorem SetDataType_mixed_case_key_not_found:
  "Get ascii_only (SetDataType (dataType ascii_only) ''Custom'' (\<lambda>detailType. ''X''))
       ''Custom'' ''d'' = ''string''
   \<and> (\<lambda>detailType. ''X'') ''d'' \<noteq> ''string''"
  using Get_after_Set_Custom[of ascii_only "\<lambda>detailType. ''X''" "''d''"] by simp

section \<open>GenType: relation, override, classification\<close>

lemma Title_literals:
  "Title ''string'' = ''String''" "Title ''bytes'' = ''Bytes''"
  "Title ''int'' = ''Int''" "Title ''int8'' = ''Int8''" "Title ''int16'' = ''Int16''"
  "Title ''int32'' = ''Int32''" "Title ''int64'' = ''Int64''"
  "Title ''uint'' = ''Uint''" "Title ''uint8'' = ''Uint8''" "Title ''uint16'' = ''Uint16''"
  "Title ''uint32'' = ''Uint32''" "Title ''uint64'' = ''Uint64''"
  "Title ''float64'' = ''Float64''" "Title ''float32'' = ''Float32''"
  "Title ''bool'' = ''Bool''"
  by (simp_all add: Title_def isSeparator_def toTitleByte_def char_of_eq_iff)

lemma switch_of_listed: "\<forall>t \<in> set (map fst kind_table). switch_of t = kind_of t"
  by (simp add: kind_table_def kind_of_def switch_of_def Title_literals)

lemma kind_of_unlisted: "t \<notin> set (map fst kind_table) \<Longrightarrow> kind_of t = ''Field''"
proof -
  assume "t \<notin> set (map fst kind_table)"
  then have "map_of kind_table t = None"
    by (simp add: map_of_eq_None_iff)
  then show ?thesis by (simp add: kind_of_def)
qed

lemma switch_of_unlisted: "t \<notin> set (map fst kind_table) \<Longrightarrow> switch_of t = ''Field''"
  by (simp add: kind_table_def switch_of_def)

lemma switch_of_kind_of: "switch_of t = kind_of t"
  using switch_of_listed kind_of_unlisted switch_of_unlisted by metis

lemma GenType_switch:
  "GenType m = (if IsRelation m then Type m
      else if CustomGenType m \<noteq> '''' then CustomGenType m
      else switch_of (trimLeftByte (Type m) (CHR ''*'')))"
  by (simp add: GenType_def switch_of_def Let_def)

lemma GenType_kind_of:
  "GenType m = (if IsRelation m then Type m
      else if CustomGenType m \<noteq> '''' then CustomGenType m
      else kind_of (dropWhile (\<lambda>c. c = CHR ''*'') (Type m)))"
  by (simp add: GenType_switch switch_of_kind_of trimLeftByte_def)

lemma dropWhile_stars: "dropWhile (\<lambda>c. c = CHR ''*'') (replicate n (CHR ''*'') @ t)
   = dropWhile (\<lambda>c. c = CHR ''*'') t"
  by (induction n) simp_all

lemma kind_of_int64: "kind_of ''int64'' = ''Int64''"
  by (simp add: kind_of_def kind_table_def)

lemma kind_of_star_int64: "kind_of ''*int64'' = ''Field''"
  by (simp add: kind_of_def kind_table_def)

lemma GenType_leading_markers:
  "\<not> IsRelation m \<Longrightarrow>
   GenType (m\<lparr>Type := replicate n (CHR ''*'') @ t\<rparr>) = GenType (m\<lparr>Type := t\<rparr>)"
  by (simp add: GenType_kind_of IsRelation_def dropWhile_stars)

lemma GenType_double_pointer: "GenType double_pointer_field = ''Int64''"
  by (simp add: GenType_kind_of IsRelation_def double_pointer_field_def kind_of_int64)

lemma GenType_single_strip_double_pointer:
  "GenType_single_strip double_pointer_field = ''Field''"
  by (simp add: GenType_single_strip_def IsRelation_def double_pointer_field_def
      strip_single_marker_def kind_of_star_int64)

text \<open>
  Claim C3 as stated fails. The claim has \<open>GenType\<close> strip a single leading \<open>*\<close> before
  classifying; \<open>strings.TrimLeft(m.Type, "*")\<close> strips every leading \<open>*\<close>. For the
  descriptor of type \<open>"**int64"\<close> (no relation, no override) the code returns \<open>"Int64"\<close>,
  while stripping one marker leaves \<open>"*int64"\<close>, which classifies as \<open>"Field"\<close>.
\<close>

theorem GenType_single_strip_counterexample:
  "GenType double_pointer_field = ''Int64''
   \<and> GenType_single_strip double_pointer_field = ''Field''
   \<and> GenType double_pointer_field \<noteq> GenType_single_strip double_pointer_field"
  by (simp add: GenType_double_pointer GenType_single_strip_double_pointer)

text \<open>
  Claim C3, amended. For every descriptor: a relation field returns its stored type
  string unchanged, whatever it is and even when an override is set; otherwise a non-empty
  override is returned verbatim; otherwise all leading \<open>*\<close> markers are stripped from the
  type string and the remainder is classified by the table \<open>kind_table\<close> (the primitive
  names to their capitalised forms, \<open>"time.Time"\<close> to \<open>"Time"\<close>, \<open>"[]byte"\<close> and
  \<open>"json.RawMessage"\<close> to \<open>"Bytes"\<close>, \<open>"serializer"\<close> to \<open>"Serializer"\<close>, anything else to
  \<open>"Field"\<close>). So for a field that is not a relation, any number of markers in front of
  a type gives the result of the type without them; in particular \<open>"*int64"\<close> gives the
  same as \<open>"int64"\<close>.
\<close>

theorem GenType_algorithm:
  "(IsRelation m \<longrightarrow> GenType m = Type m)
   \<and> (\<not> IsRelation m \<and> CustomGenType m \<noteq> '''' \<longrightarrow> GenType m = CustomGenType m)
   \<and> (\<not> IsRelation m \<and> CustomGenType m = '''' \<longrightarrow>
        GenType m = kind_of (dropWhile (\<lambda>c. c = CHR ''*'') (Type m)))
   \<and> (\<not> IsRelation m \<longrightarrow>
        GenType (m\<lparr>Type := replicate n (CHR ''*'') @ t\<rparr>) = GenType (m\<lparr>Type := t\<rparr>))
   \<and> (\<not> IsRelation m \<longrightarrow> GenType (m\<lparr>Type := ''*int64''\<rparr>) = GenType (m\<lparr>Type := ''int64''\<rparr>))"
proof -
  have a: "IsRelation m \<longrightarrow> GenType m = Type m"
    by (simp add: GenType_kind_of)
  have b: "\<not> IsRelation m \<and> CustomGenType m \<noteq> '''' \<longrightarrow> GenType m = CustomGenType m"
    by (simp add: GenType_kind_of)
  have c: "\<not> IsRelation m \<and> CustomGenType m = '''' \<longrightarrow>
        GenType m = kind_of (dropWhile (\<lambda>c. c = CHR ''*'') (Type m))"
    by (simp add: GenType_kind_of)
  have d: "\<not> IsRelation m \<longrightarrow>
        GenType (m\<lparr>Type := replicate n (CHR ''*'') @ t\<rparr>) = GenType (m\<lparr>Type := t\<rparr>)"
    using GenType_leading_markers[of m n t] by blast
  have e: "\<not> IsRelation m \<longrightarrow> GenType (m\<lparr>Type := ''*int64''\<rparr>) = GenType (m\<lparr>Type := ''int64''\<rparr>)"
    using GenType_leading_markers[of m 1 "''int64''"] by simp
  from a b c d e show ?thesis by blast
qed

theorem GenType_algorithm_witness:
  "\<not> IsRelation double_pointer_field
   \<and> CustomGenType double_pointer_field = ''''
   \<and> GenType double_pointer_field
       = kind_of (dropWhile (\<lambda>c. c = CHR ''*'') (Type double_pointer_field))
   \<and> GenType (double_pointer_field\<lparr>Type := ''*int64''\<rparr>)
       = GenType (double_pointer_field\<lparr>Type := ''int64''\<rparr>)
   \<and> IsRelation (double_pointer_field\<lparr>Relation := Some ()\<rparr>)
   \<and> GenType (double_pointer_field\<lparr>Relation := Some ()\<rparr>)
       = Type (double_pointer_field\<lparr>Relation := Some ()\<rparr>)"
proof -
  have n: "\<not> IsRelation double_pointer_field"
    by (simp add: IsRelation_def double_pointer_field_def)
  have c: "CustomGenType double_pointer_field = ''''"
    by (simp add: double_pointer_field_def)
  have r: "IsRelation (double_pointer_field\<lparr>Relation := Some ()\<rparr>)"
    by (simp add: IsRelation_def)
  show ?thesis
    using n c r GenType_algorithm[of double_pointer_field 0 "''''"]
      GenType_algorithm[of "double_pointer_field\<lparr>Relation := Some ()\<rparr>" 0 "''''"]
    by blast
qed

section \<open>Escaping a name against a keyword set\<close>

lemma EscapeKeywordFor_Name:
  "EscapeKeywordFor m kw =
     m\<lparr>Name := (if FullMatch kw (Name m) then Name m @ ''_'' else Name m)\<rparr>"
  by (simp add: EscapeKeywordFor_def)

lemma FullMatch_escaped:
  assumes "\<forall>w \<in> set (words kw). \<not> ends_in_underscore w"
  shows "\<not> FullMatch kw (n @ ''_'')"
proof
  assume "FullMatch kw (n @ ''_'')"
  then have "n @ ''_'' \<in> set (words kw)"
    by (simp add: FullMatch_def FullMatch_range_iff)
  with assms have "\<not> ends_in_underscore (n @ ''_'')" by blast
  then show False by (simp add: ends_in_underscore_def)
qed

lemma EscapeKeywordFor_twice:
  assumes "\<forall>w \<in> set (words kw). \<not> ends_in_underscore w"
  shows "EscapeKeywordFor (EscapeKeywordFor m kw) kw = EscapeKeywordFor m kw"
proof (cases "FullMatch kw (Name m)")
  case True
  then have e: "EscapeKeywordFor m kw = m\<lparr>Name := Name m @ ''_''\<rparr>"
    by (simp add: EscapeKeywordFor_def)
  have "\<not> FullMatch kw (Name (m\<lparr>Name := Name m @ ''_''\<rparr>))"
    using FullMatch_escaped[OF assms, of "Name m"] by simp
  then show ?thesis
    unfolding e by (simp add: EscapeKeywordFor_def)
next
  case False
  then show ?thesis by (simp add: EscapeKeywordFor_def)
qed

lemma keyword_lists_no_underscore:
  "\<forall>w \<in> set (words GormKeywords). \<not> ends_in_underscore w"
  "\<forall>w \<in> set (words DOKeywords). \<not> ends_in_underscore w"
  "\<forall>w \<in> set (words GenKeywords). \<not> ends_in_underscore w"
  by (simp_all add: GormKeywords_def DOKeywords_def GenKeywords_def ends_in_underscore_def)

lemma EscapeKeyword_Find:
  "Name (EscapeKeyword (m\<lparr>Name := ''Find''\<rparr>)) = ''Find_''"
  using Gorm_FullMatch_Find by (simp add: EscapeKeyword_def EscapeKeywordFor_def)

lemma EscapeKeyword_twice: "EscapeKeyword (EscapeKeyword m) = EscapeKeyword m"
  unfolding EscapeKeyword_def
  by (rule EscapeKeywordFor_twice) (rule keyword_lists_no_underscore(1))

text \<open>
  Claim C6. \<open>EscapeKeywordFor\<close> returns the descriptor it was given with one underscore
  appended to the name when the name is a full match in the keyword set, and with the
  name unchanged otherwise; no other field changes. For a keyword set none of whose
  words ends in an underscore, a second call with the same set changes nothing (no
  second underscore); the three keyword lists of the package are such sets. A descriptor
  named \<open>"Find"\<close> is named \<open>"Find_"\<close> after one \<open>EscapeKeyword\<close> and after two.
\<close>

theorem EscapeKeywordFor_appends_once:
  "EscapeKeywordFor m kw =
     m\<lparr>Name := (if FullMatch kw (Name m) then Name m @ ''_'' else Name m)\<rparr>
   \<and> ((\<forall>w \<in> set (words kw). \<not> ends_in_underscore w) \<longrightarrow>
        EscapeKeywordFor (EscapeKeywordFor m kw) kw = EscapeKeywordFor m kw)
   \<and> (\<forall>w \<in> set (words GormKeywords @ words DOKeywords @ words GenKeywords).
        \<not> ends_in_underscore w)
   \<and> Name (EscapeKeyword (m\<lparr>Name := ''Find''\<rparr>)) = ''Find_''
   \<and> Name (EscapeKeyword (EscapeKeyword (m\<lparr>Name := ''Find''\<rparr>))) = ''Find_''"
proof -
  have a: "(\<forall>w \<in> set (words kw). \<not> ends_in_underscore w) \<longrightarrow>
        EscapeKeywordFor (EscapeKeywordFor m kw) kw = EscapeKeywordFor m kw"
    using EscapeKeywordFor_twice[of kw m] by blast
  have b: "\<forall>w \<in> set (words GormKeywords @ words DOKeywords @ words GenKeywords).
        \<not> ends_in_underscore w"
    using keyword_lists_no_underscore by auto
  have c: "Name (EscapeKeyword (EscapeKeyword (m\<lparr>Name := ''Find''\<rparr>))) = ''Find_''"
    by (simp only: EscapeKeyword_twice EscapeKeyword_Find)
  from a b c EscapeKeywordFor_Name[of m kw] EscapeKeyword_Find[of m]
  show ?thesis by blast
qed

theorem EscapeKeywordFor_appends_once_witness:
  "list_all (\<lambda>w. \<not> ends_in_underscore w) (words DOKeywords)
   \<and> EscapeKeywordFor column_field DOKeywords = column_field
   \<and> FullMatch DOKeywords (Name (column_field\<lparr>Name := ''Alias''\<rparr>))
   \<and> Name (EscapeKeywordFor (column_field\<lparr>Name := ''Alias''\<rparr>) DOKeywords) = ''Alias_''
   \<and> EscapeKeywordFor (EscapeKeywordFor (column_field\<lparr>Name := ''Alias''\<rparr>) DOKeywords) DOKeywords
       = EscapeKeywordFor (column_field\<lparr>Name := ''Alias''\<rparr>) DOKeywords"
proof -
  have f: "\<not> FullMatch DOKeywords (Name column_field)"
    by (simp add: FullMatch_def DOKeywords_def column_field_def)
  have g: "FullMatch DOKeywords (Name (column_field\<lparr>Name := ''Alias''\<rparr>))"
    by (simp add: FullMatch_def DOKeywords_def)
  have u: "\<forall>w \<in> set (words DOKeywords). \<not> ends_in_underscore w"
    by (rule keyword_lists_no_underscore(2))
  have 1: "EscapeKeywordFor column_field DOKeywords = column_field"
    using f EscapeKeywordFor_appends_once[of column_field DOKeywords] by simp
  have 2: "Name (EscapeKeywordFor (column_field\<lparr>Name := ''Alias''\<rparr>) DOKeywords) = ''Alias_''"
    using g EscapeKeywordFor_appends_once[of "column_field\<lparr>Name := ''Alias''\<rparr>" DOKeywords]
    by simp
  have 3: "EscapeKeywordFor (EscapeKeywordFor (column_field\<lparr>Name := ''Alias''\<rparr>) DOKeywords)
             DOKeywords
           = EscapeKeywordFor (column_field\<lparr>Name := ''Alias''\<rparr>) DOKeywords"
    using u EscapeKeywordFor_appends_once[of "column_field\<lparr>Name := ''Alias''\<rparr>" DOKeywords]
    by blast
  have v: "list_all (\<lambda>w. \<not> ends_in_underscore w) (words DOKeywords)"
    using u by (simp only: list_all_iff)
  from v 1 g 2 3 show ?thesis by blast
qed

section \<open>Tags: the primary tag, or the secondary tag installed once\<close>

lemma Tags_primary_present:
  "Tag_index (Tag m) (TagKeyGorm F) \<noteq> None \<Longrightarrow> Tags U F m = Inr (Tag_Build F (Tag m), m)"
  by (simp add: Tags_def)

lemma Tags_install:
  "Tag_index (Tag m) (TagKeyGorm F) = None \<Longrightarrow>
   TrimSpace U (GormTag_Build F (GORMTag m)) = g \<Longrightarrow> g \<noteq> '''' \<Longrightarrow> Tag m = Some t \<Longrightarrow>
   Tags U F m = Inr (Tag_Build F (Some (t(TagKeyGorm F \<mapsto> g))),
                     m\<lparr>Tag := Some (t(TagKeyGorm F \<mapsto> g))\<rparr>)"
  by (simp add: Tags_def Tag_Set_def Let_def)

lemma Tags_nothing_to_install:
  "Tag_index (Tag m) (TagKeyGorm F) = None \<Longrightarrow>
   TrimSpace U (GormTag_Build F (GORMTag m)) = '''' \<Longrightarrow>
   Tags U F m = Inr (Tag_Build F (Tag m), m)"
  by (simp add: Tags_def Let_def)

lemma Tags_panics_iff:
  "Tags U F m = Inl AssignNilMap \<longleftrightarrow>
     Tag m = None \<and> TrimSpace U (GormTag_Build F (GORMTag m)) \<noteq> ''''"
proof (cases "Tag m")
  case None
  then show ?thesis
    by (simp add: Tags_def Tag_Set_def Tag_index_def Let_def)
next
  case (Some t)
  then show ?thesis
    by (simp add: Tags_def Tag_Set_def Let_def)
qed

lemma Tags_again:
  assumes "Tags U F m = Inr (s, m')"
  shows "Tags U F m' = Inr (s, m')"
proof (cases "Tag_index (Tag m) (TagKeyGorm F) = None")
  case False
  then have p: "Tags U F m = Inr (Tag_Build F (Tag m), m)"
    by (rule Tags_primary_present)
  with assms have "s = Tag_Build F (Tag m)" "m' = m" by auto
  with p show ?thesis by simp
next
  case absent: True
  show ?thesis
  proof (cases "TrimSpace U (GormTag_Build F (GORMTag m)) = ''''")
    case True
    with absent have p: "Tags U F m = Inr (Tag_Build F (Tag m), m)"
      by (rule Tags_nothing_to_install)
    with assms have "s = Tag_Build F (Tag m)" "m' = m" by auto
    with p show ?thesis by simp
  next
    case False
    let ?g = "TrimSpace U (GormTag_Build F (GORMTag m))"
    from assms have "Tags U F m \<noteq> Inl AssignNilMap" by simp
    with False have "Tag m \<noteq> None" by (simp add: Tags_panics_iff)
    then obtain t where t: "Tag m = Some t" by blast
    let ?m' = "m\<lparr>Tag := Some (t(TagKeyGorm F \<mapsto> ?g))\<rparr>"
    have first: "Tags U F m = Inr (Tag_Build F (Tag ?m'), ?m')"
      using Tags_install[OF absent refl False t] by simp
    with assms have eq: "s = Tag_Build F (Tag ?m')" "m' = ?m'" by auto
    have "Tag_index (Tag ?m') (TagKeyGorm F) \<noteq> None"
      by (simp add: Tag_index_def)
    then have "Tags U F ?m' = Inr (Tag_Build F (Tag ?m'), ?m')"
      by (rule Tags_primary_present)
    then show ?thesis by (simp only: eq)
  qed
qed

lemma GormTag_Build_column_id:
  "GormTag_Build sample_field_pkg '' column:id '' = '' column:id ''"
  by (simp add: sample_field_pkg_def)

lemma TrimSpace_column_id: "TrimSpace U '' column:id '' = ''column:id''"
  by (simp add: isASCII_def RuneSelf_def asciiSpace_def)

lemma Tags_nil_tag_field:
  "Tags ascii_only sample_field_pkg nil_tag_field = Inl AssignNilMap"
proof -
  have g: "GORMTag nil_tag_field = '' column:id ''" and n: "Tag nil_tag_field = None"
    by (simp_all add: nil_tag_field_def)
  have "TrimSpace ascii_only (GormTag_Build sample_field_pkg (GORMTag nil_tag_field)) \<noteq> ''''"
    by (simp only: g GormTag_Build_column_id TrimSpace_column_id) simp
  with n show ?thesis by (simp only: Tags_panics_iff) simp
qed

text \<open>
  Claim C5 as stated fails. The claim has \<open>Tags\<close> install the trimmed rendering of the
  secondary tag whenever it is not empty, and return the same string on two calls. The
  descriptor \<open>nil_tag_field\<close> has no entry under the primary key (its \<open>Tag\<close> is the nil
  map) and a secondary tag whose trimmed rendering is \<open>"column:id"\<close>, not empty; on it
  \<open>Tags\<close> does not return a string: the write of \<open>m.Tag.Set\<close> to the nil map panics.
\<close>

theorem Tags_nil_map_counterexample:
  "Tag_index (Tag nil_tag_field) (TagKeyGorm sample_field_pkg) = None
   \<and> TrimSpace ascii_only (GormTag_Build sample_field_pkg (GORMTag nil_tag_field)) = ''column:id''
   \<and> Tags ascii_only sample_field_pkg nil_tag_field = Inl AssignNilMap"
proof -
  have a: "Tag_index (Tag nil_tag_field) (TagKeyGorm sample_field_pkg) = None"
    by (simp add: nil_tag_field_def Tag_index_def)
  have g: "GORMTag nil_tag_field = '' column:id ''"
    by (simp add: nil_tag_field_def)
  have b: "TrimSpace ascii_only (GormTag_Build sample_field_pkg (GORMTag nil_tag_field))
             = ''column:id''"
    by (simp only: g GormTag_Build_column_id TrimSpace_column_id)
  show ?thesis
    by (rule conjI[OF a conjI[OF b Tags_nil_tag_field]])
qed

text \<open>
  Claim C5, amended. When the tag already has an entry under the primary key, \<open>Tags\<close>
  returns the rendering of the tag as it is and leaves the descriptor unchanged.
  Otherwise it renders the secondary tag and trims it. When the result is empty, the tag
  is rendered unchanged. When the result is not empty and the tag is a map (not nil), the
  result is installed under the primary key and the rendering of the updated tag is
  returned. \<open>Tags\<close> fails to return exactly when the tag is the nil map and the trimmed
  rendering is not empty. Whenever a call returns, a second call right after it returns
  the same string and leaves the same descriptor.
\<close>

theorem Tags_two_tier_idempotent:
  "(Tag_index (Tag m) (TagKeyGorm F) \<noteq> None \<longrightarrow> Tags U F m = Inr (Tag_Build F (Tag m), m))
   \<and> (Tag_index (Tag m) (TagKeyGorm F) = None
        \<and> TrimSpace U (GormTag_Build F (GORMTag m)) \<noteq> '''' \<and> Tag m = Some t \<longrightarrow>
        Tags U F m =
          Inr (Tag_Build F (Some (t(TagKeyGorm F \<mapsto> TrimSpace U (GormTag_Build F (GORMTag m))))),
               m\<lparr>Tag := Some (t(TagKeyGorm F \<mapsto> TrimSpace U (GormTag_Build F (GORMTag m))))\<rparr>))
   \<and> (Tag_index (Tag m) (TagKeyGorm F) = None
        \<and> TrimSpace U (GormTag_Build F (GORMTag m)) = '''' \<longrightarrow>
        Tags U F m = Inr (Tag_Build F (Tag m), m))
   \<and> (Tags U F m = Inl AssignNilMap \<longleftrightarrow>
        Tag m = None \<and> TrimSpace U (GormTag_Build F (GORMTag m)) \<noteq> '''')
   \<and> (Tags U F m = Inr (s, m') \<longrightarrow> Tags U F m' = Inr (s, m'))"
proof -
  have a: "Tag_index (Tag m) (TagKeyGorm F) \<noteq> None \<longrightarrow>
        Tags U F m = Inr (Tag_Build F (Tag m), m)"
    using Tags_primary_present[of m F U] by blast
  have b: "Tag_index (Tag m) (TagKeyGorm F) = None
        \<and> TrimSpace U (GormTag_Build F (GORMTag m)) \<noteq> '''' \<and> Tag m = Some t \<longrightarrow>
        Tags U F m =
          Inr (Tag_Build F (Some (t(TagKeyGorm F \<mapsto> TrimSpace U (GormTag_Build F (GORMTag m))))),
               m\<lparr>Tag := Some (t(TagKeyGorm F \<mapsto> TrimSpace U (GormTag_Build F (GORMTag m))))\<rparr>)"
    using Tags_install[of m F U "TrimSpace U (GormTag_Build F (GORMTag m))" t] by blast
  have c: "Tag_index (Tag m) (TagKeyGorm F) = None
        \<and> TrimSpace U (GormTag_Build F (GORMTag m)) = '''' \<longrightarrow>
        Tags U F m = Inr (Tag_Build F (Tag m), m)"
    using Tags_nothing_to_install[of m F U] by blast
  have d: "Tags U F m = Inr (s, m') \<longrightarrow> Tags U F m' = Inr (s, m')"
    using Tags_again[of U F m s m'] by blast
  show ?thesis
    by (rule conjI[OF a conjI[OF b conjI[OF c conjI[OF Tags_panics_iff d]]]])
qed

theorem Tags_two_tier_idempotent_witness:
  "Tag_index (Tag column_field) (TagKeyGorm sample_field_pkg) = None
   \<and> Tag column_field = Some Map.empty
   \<and> TrimSpace ascii_only (GormTag_Build sample_field_pkg (GORMTag column_field)) = ''column:id''
   \<and> Tags ascii_only sample_field_pkg column_field
       = Inr (''gorm:column:id'',
              column_field\<lparr>Tag := Some [''gorm'' \<mapsto> ''column:id'']\<rparr>)
   \<and> Tags ascii_only sample_field_pkg (column_field\<lparr>Tag := Some [''gorm'' \<mapsto> ''column:id'']\<rparr>)
       = Inr (''gorm:column:id'',
              column_field\<lparr>Tag := Some [''gorm'' \<mapsto> ''column:id'']\<rparr>)"
proof -
  have n: "Tag_index (Tag column_field) (TagKeyGorm sample_field_pkg) = None"
    by (simp add: column_field_def Tag_index_def)
  have e: "Tag column_field = Some Map.empty"
    by (simp add: column_field_def)
  have g: "GORMTag column_field = '' column:id ''"
    by (simp add: column_field_def)
  have t: "TrimSpace ascii_only (GormTag_Build sample_field_pkg (GORMTag column_field))
             = ''column:id''"
    by (simp only: g GormTag_Build_column_id TrimSpace_column_id)
  have ne: "TrimSpace ascii_only (GormTag_Build sample_field_pkg (GORMTag column_field)) \<noteq> ''''"
    by (simp only: t) simp
  have k: "TagKeyGorm sample_field_pkg = ''gorm''"
    by (simp add: sample_field_pkg_def)
  have b: "Tag_Build sample_field_pkg (Some [''gorm'' \<mapsto> ''column:id'']) = ''gorm:column:id''"
    by (simp add: sample_field_pkg_def Tag_index_def)
  note w = Tags_two_tier_idempotent[of column_field sample_field_pkg ascii_only Map.empty
      "''gorm:column:id''" "column_field\<lparr>Tag := Some [''gorm'' \<mapsto> ''column:id'']\<rparr>"]
  note inst = w[THEN conjunct2, THEN conjunct1, THEN mp, OF conjI[OF n conjI[OF ne e]]]
  have 1: "Tags ascii_only sample_field_pkg column_field
       = Inr (''gorm:column:id'', column_field\<lparr>Tag := Some [''gorm'' \<mapsto> ''column:id'']\<rparr>)"
    using inst by (simp only: t k b)
  note again = w[THEN conjunct2, THEN conjunct2, THEN conjunct2, THEN conjunct2, THEN mp, OF 1]
  show ?thesis
    by (rule conjI[OF n conjI[OF e conjI[OF t conjI[OF 1 again]]]])
qed

end
